theory Spec2Isabelle
  imports Main
begin

section \<open>Relay manager (class RemoteWebSocketManager of web/server.ts)\<close>

text \<open>
  A socket of the \<open>ws\<close> library is an object with an identity and a mutable
  \<open>readyState\<close>. Handles are natural numbers; the ready states live in two stores, one for
  the browser-side sockets (clients) and one for the upstream sockets (remotes).
\<close>

datatype readyState = CONNECTING | OPEN | CLOSING | CLOSED

type_synonym client = nat
type_synonym remote = nat
type_synonym message = string

text \<open>
  The two maps of the class, the two stores, and three traces of what the code did to the
  outside: every \<open>new WebSocket(url)\<close> (with the host its handlers close over; the handle
  of the new socket is its index in the trace), every \<open>close()\<close> called on an upstream
  socket, and every \<open>client.send(msg, {binary})\<close>.
\<close>

record world =
  remoteConnections :: "string \<rightharpoonup> remote"
  clientGroups :: "string \<rightharpoonup> client list"
  clientReadyState :: "client \<Rightarrow> readyState"
  remoteReadyState :: "remote \<Rightarrow> readyState"
  created :: "(string \<times> string) list"
  closeCalls :: "remote list"
  sent :: "(client \<times> message \<times> bool) list"

definition init_world :: "(client \<Rightarrow> readyState) \<Rightarrow> world" where
  "init_world cs =
     \<lparr> remoteConnections = Map.empty, clientGroups = Map.empty,
       clientReadyState = cs, remoteReadyState = (\<lambda>_. CLOSED),
       created = [], closeCalls = [], sent = [] \<rparr>"

text \<open>
  A JavaScript \<open>Set\<close> iterates in insertion order: it is a list without repetition,
  \<open>add\<close> appends an element that is not there yet and \<open>delete\<close> removes it.
\<close>

definition set_add :: "'a \<Rightarrow> 'a list \<Rightarrow> 'a list" where
  "set_add x xs = (if x \<in> set xs then xs else xs @ [x])"

definition set_delete :: "'a \<Rightarrow> 'a list \<Rightarrow> 'a list" where
  "set_delete x xs = removeAll x xs"

text \<open>
  The \<open>ws\<close> library, which is not part of the repository: \<open>close()\<close> on a socket that is
  connecting or open starts the closing handshake (the socket is \<open>CLOSING\<close> from then on),
  and does nothing to the state of a socket that is closing or closed. The \<open>close\<close> event is
  emitted later, never from inside \<open>close()\<close>. \<open>send\<close> on an open socket queues the frame.
\<close>

definition ws_close :: "remote \<Rightarrow> world \<Rightarrow> world" where
  "ws_close w s =
     s\<lparr> closeCalls := closeCalls s @ [w],
        remoteReadyState := (remoteReadyState s)
          (w := (case remoteReadyState s w of
                   CONNECTING \<Rightarrow> CLOSING | OPEN \<Rightarrow> CLOSING
                 | CLOSING \<Rightarrow> CLOSING | CLOSED \<Rightarrow> CLOSED)) \<rparr>"

definition client_send :: "client \<Rightarrow> message \<Rightarrow> bool \<Rightarrow> world \<Rightarrow> world" where
  "client_send c msg isBinary s = s\<lparr> sent := sent s @ [(c, msg, isBinary)] \<rparr>"

text \<open>\<^verbatim>\<open>registerClient(client, host)\<close>: \<^verbatim>\<open>group?.add(client)\<close> does nothing without a group.\<close>

definition registerClient :: "client \<Rightarrow> string \<Rightarrow> world \<Rightarrow> world" where
  "registerClient client host s =
     (case clientGroups s host of
        None \<Rightarrow> s
      | Some grp \<Rightarrow> s\<lparr> clientGroups := (clientGroups s)(host \<mapsto> set_add client grp) \<rparr>)"

text \<open>
  The second half of \<open>open\<close>: a new upstream socket and a fresh group. The address is taken
  to be one that \<open>new WebSocket\<close> accepts, as an address made from a host that passes
  \<open>isValidHost\<close> is; for a text that is no URL the constructor throws before either map
  is written, and the model does not cover that call.
\<close>

definition ws_url :: "string \<Rightarrow> string \<Rightarrow> string" where
  "ws_url host apiVersion = ''ws://'' @ host @ ''/v'' @ apiVersion @ ''/ws''"

definition open_new :: "client \<Rightarrow> string \<Rightarrow> string \<Rightarrow> world \<Rightarrow> remote \<times> world" where
  "open_new client host apiVersion s =
     (let remoteWs = length (created s) in
        (remoteWs,
         s\<lparr> created := created s @ [(host, ws_url host apiVersion)],
            remoteReadyState := (remoteReadyState s)(remoteWs := CONNECTING),
            remoteConnections := (remoteConnections s)(host \<mapsto> remoteWs),
            clientGroups := (clientGroups s)(host \<mapsto> [client]) \<rparr>))"

text \<open>\<^verbatim>\<open>open(client, host, apiVersion)\<close>, named \<open>open_ws\<close> here (\<open>open\<close> is a HOL constant).\<close>

definition open_ws :: "client \<Rightarrow> string \<Rightarrow> string \<Rightarrow> world \<Rightarrow> remote \<times> world" where
  "open_ws client host apiVersion s =
     (case remoteConnections s host of
        Some remoteWs \<Rightarrow>
          if remoteReadyState s remoteWs \<noteq> OPEN
          then (remoteWs, registerClient client host s)
          else open_new client host apiVersion s
      | None \<Rightarrow> open_new client host apiVersion s)"

text \<open>\<^verbatim>\<open>close(client, host)\<close>, named \<open>close_ws\<close>.\<close>

definition close_ws :: "client \<Rightarrow> string \<Rightarrow> world \<Rightarrow> world" where
  "close_ws client host s =
     (let grp = map_option (set_delete client) (clientGroups s host);
          s1 = (case grp of
                  None \<Rightarrow> s
                | Some g \<Rightarrow> s\<lparr> clientGroups := (clientGroups s)(host \<mapsto> g) \<rparr>)
      in if grp = None \<or> grp = Some []
         then (let s2 = (case remoteConnections s1 host of
                           None \<Rightarrow> s1
                         | Some remoteWs \<Rightarrow> ws_close remoteWs s1)
               in s2\<lparr> clientGroups := (clientGroups s2)(host := None) \<rparr>)
         else s1)"

text \<open>
  The handlers that \<open>open\<close> installs on a new upstream socket. Each closes over the
  \<open>host\<close> of the call that created the socket, not over the socket.
\<close>

definition on_open :: "string \<Rightarrow> world \<Rightarrow> world" where
  "on_open host s = s"

definition on_close :: "string \<Rightarrow> world \<Rightarrow> world" where
  "on_close host s = s\<lparr> remoteConnections := (remoteConnections s)(host := None) \<rparr>"

definition on_error :: "string \<Rightarrow> world \<Rightarrow> world" where
  "on_error host s = s"

definition group_members :: "world \<Rightarrow> string \<Rightarrow> client list" where
  "group_members s host = (case clientGroups s host of None \<Rightarrow> [] | Some g \<Rightarrow> g)"

text \<open>
  The handler of \<open>message\<close>:
  \<^verbatim>\<open>const clients = this.clientGroups.get(host) || new Set()\<close>, then the loop over it.
\<close>

definition on_message :: "string \<Rightarrow> message \<Rightarrow> bool \<Rightarrow> world \<Rightarrow> world" where
  "on_message host msg isBinary s =
     (let clients = (case clientGroups s host of None \<Rightarrow> [] | Some grp \<Rightarrow> grp)
      in fold (\<lambda>client s'. if clientReadyState s' client = OPEN
                             then client_send client msg isBinary s' else s')
              clients s)"

text \<open>
  What the library does to an upstream socket, each followed by the handler of the socket:
  the socket connects, it is closed, a message arrives on it.
\<close>

definition host_of :: "world \<Rightarrow> remote \<Rightarrow> string" where
  "host_of s w = fst (created s ! w)"

definition remote_opened :: "remote \<Rightarrow> world \<Rightarrow> world" where
  "remote_opened w s =
     (if w < length (created s)
      then on_open (host_of s w) (s\<lparr> remoteReadyState := (remoteReadyState s)(w := OPEN) \<rparr>)
      else s)"

definition remote_closed :: "remote \<Rightarrow> world \<Rightarrow> world" where
  "remote_closed w s =
     (if w < length (created s)
      then on_close (host_of s w) (s\<lparr> remoteReadyState := (remoteReadyState s)(w := CLOSED) \<rparr>)
      else s)"

text \<open>
  A closing handshake that the device or the library starts: the socket is \<open>CLOSING\<close>
  until its \<open>close\<close> event, and no handler runs.
\<close>

definition remote_closing :: "remote \<Rightarrow> world \<Rightarrow> world" where
  "remote_closing w s =
     (if w < length (created s)
      then s\<lparr> remoteReadyState := (remoteReadyState s)(w := CLOSING) \<rparr>
      else s)"

definition remote_message :: "remote \<Rightarrow> message \<Rightarrow> bool \<Rightarrow> world \<Rightarrow> world" where
  "remote_message w msg isBinary s =
     (if w < length (created s) then on_message (host_of s w) msg isBinary s else s)"

section \<open>Host validator (isValidHost of web/server.ts)\<close>

text \<open>
  The regular expressions the source uses, and a matcher for them: \<open>rmatch r s\<close> lists
  what is left of \<open>s\<close> after each way of matching \<open>r\<close> at its start, so a backtracking
  search finds a match exactly when the list has the wanted remainder. \<open>Digit\<close> is
  \<^verbatim>\<open>\d\<close> (the ten ASCII digits, no flag being set), \<open>Rep r lo hi\<close> is \<^verbatim>\<open>r{lo,hi}\<close>.
\<close>

datatype regex = Digit | Lit char | Seq regex regex | Rep regex nat nat

definition is_digit :: "char \<Rightarrow> bool" where
  "is_digit c = (c \<in> set ''0123456789'')"

primrec repeat :: "(string \<Rightarrow> string list) \<Rightarrow> nat \<Rightarrow> nat \<Rightarrow> string \<Rightarrow> string list" where
  "repeat m lo 0 s = (if lo = 0 then [s] else [])"
| "repeat m lo (Suc hi) s =
     (if lo = 0 then [s] else []) @ concat (map (repeat m (lo - 1) hi) (m s))"

primrec rmatch :: "regex \<Rightarrow> string \<Rightarrow> string list" where
  "rmatch Digit = (\<lambda>s. case s of [] \<Rightarrow> [] | c # cs \<Rightarrow> if is_digit c then [cs] else [])"
| "rmatch (Lit a) = (\<lambda>s. case s of [] \<Rightarrow> [] | c # cs \<Rightarrow> if c = a then [cs] else [])"
| "rmatch (Seq r1 r2) = (\<lambda>s. concat (map (rmatch r2) (rmatch r1 s)))"
| "rmatch (Rep r lo hi) = repeat (rmatch r) lo hi"

text \<open>
  \<^verbatim>\<open>/^r$/.test(s)\<close>: without the \<open>m\<close> flag, \<open>$\<close> is the end of the input. A string is
  a list of bytes here and of UTF-16 code units in JavaScript; a character outside ASCII is
  neither a digit nor a separator in either, so the answer is the same.
\<close>

definition regex_test :: "regex \<Rightarrow> string \<Rightarrow> bool" where
  "regex_test r s = ([] \<in> set (rmatch r s))"

text \<open>\<^verbatim>\<open>/^(?:\d{1,3}\.){3}\d{1,3}:\d{1,5}$/\<close>\<close>

definition host_regex :: regex where
  "host_regex =
     Seq (Rep (Seq (Rep Digit 1 3) (Lit (CHR ''.''))) 3 3)
         (Seq (Rep Digit 1 3) (Seq (Lit (CHR '':'')) (Rep Digit 1 5)))"

text \<open>\<^verbatim>\<open>s.split(c)\<close> for a separator of one character: never an empty array.\<close>

fun split_on :: "char \<Rightarrow> string \<Rightarrow> string list" where
  "split_on c [] = [[]]"
| "split_on c (x # xs) =
     (if x = c then [] # split_on c xs
      else (x # hd (split_on c xs)) # tl (split_on c xs))"

text \<open>
  \<^verbatim>\<open>Number(s)\<close> on a string of ASCII digits is its decimal value, and 0 on the empty
  string. On other strings the model answers \<open>None\<close>, which stands for \<open>NaN\<close> (every
  comparison with it is false); JavaScript converts some of them (signs, exponents, white
  space), but no such string passes the regular expression that guards the calls.
  \<open>Number(undefined)\<close> is \<open>NaN\<close> as well.
\<close>

definition digit_val :: "char \<Rightarrow> int" where
  "digit_val c = int (of_char c) - 48"

definition decimal_value :: "string \<Rightarrow> int" where
  "decimal_value s = fold (\<lambda>c n. 10 * n + digit_val c) s 0"

definition Number :: "string \<Rightarrow> int option" where
  "Number s = (if list_all is_digit s then Some (decimal_value s) else None)"

definition isValidHost :: "string \<Rightarrow> bool" where
  "isValidHost str =
     (if \<not> regex_test host_regex str then False
      else
        (let parts = split_on (CHR '':'') str;
             ip = hd parts;
             port = (case tl parts of [] \<Rightarrow> None | p # _ \<Rightarrow> Some p);
             octets = map Number (split_on (CHR ''.'') ip);
             validIp = list_all (\<lambda>n. case n of None \<Rightarrow> False
                                         | Some v \<Rightarrow> v \<ge> 0 \<and> v \<le> 255) octets;
             validPort = (case Option.bind port Number of None \<Rightarrow> False
                          | Some v \<Rightarrow> v \<ge> 1 \<and> v \<le> 65535)
         in validIp \<and> validPort))"

text \<open>
  The specification's wording, to compare with: four dot-separated decimal integers, each
  in [0,255], then a colon, then a decimal integer in [1,65535].
\<close>

definition is_decimal :: "string \<Rightarrow> bool" where
  "is_decimal s = (s \<noteq> [] \<and> list_all is_digit s)"

definition spec_isValidHost :: "string \<Rightarrow> bool" where
  "spec_isValidHost s =
     (case split_on (CHR '':'') s of
        [ip, port] \<Rightarrow>
          (case split_on (CHR ''.'') ip of
             [a, b, c, d] \<Rightarrow>
               list_all (\<lambda>x. is_decimal x \<and> 0 \<le> decimal_value x \<and> decimal_value x \<le> 255)
                        [a, b, c, d]
           | _ \<Rightarrow> False)
          \<and> is_decimal port \<and> 1 \<le> decimal_value port \<and> decimal_value port \<le> 65535
      | _ \<Rightarrow> False)"

text \<open>What the code accepts as an octet and as a port: the regular expression bounds the
  number of digits as well.\<close>

definition octet_text :: "string \<Rightarrow> bool" where
  "octet_text x =
     (list_all is_digit x \<and> 1 \<le> length x \<and> length x \<le> 3 \<and> decimal_value x \<le> 255)"

definition port_text :: "string \<Rightarrow> bool" where
  "port_text p =
     (list_all is_digit p \<and> 1 \<le> length p \<and> length p \<le> 5
      \<and> 1 \<le> decimal_value p \<and> decimal_value p \<le> 65535)"

text \<open>A string of decimal digits, \<open>lo\<close> to \<open>hi\<close> of them.\<close>

definition digits :: "nat \<Rightarrow> nat \<Rightarrow> string \<Rightarrow> bool" where
  "digits lo hi p = (list_all is_digit p \<and> lo \<le> length p \<and> length p \<le> hi)"

section \<open>Proxy routes (app.get and app.post of web/server.ts)\<close>

text \<open>
  The device is outside: \<open>fetch\<close> either rejects (no route, refused, reset, the runtime's
  own timeout) or resolves to a response, whose body either cannot be read or is a text;
  \<open>JSON.parse\<close> and \<open>JSON.stringify\<close> are parameters over a type \<open>'j\<close> of JSON values.
\<close>

datatype http_method = GET | POST

record request =
  req_method :: http_method
  req_url :: string
  req_headers :: "(string \<times> string) list"
  req_body :: "string option"

datatype fetch_result = Rejected | Response "string option"

record 'j upstream =
  fetch :: "request \<Rightarrow> fetch_result"
  parse :: "string \<Rightarrow> 'j option"
  stringify :: "'j \<Rightarrow> string"

datatype exn = FetchRejected | BodyUnreadable | JsonSyntaxError

datatype 'j reply = Error_object string | Json_body 'j | Text_body string

text \<open>\<^verbatim>\<open>await (await fetch(..)).text()\<close> and \<^verbatim>\<open>await (await fetch(..)).json()\<close>.\<close>

definition fetch_text :: "'j upstream \<Rightarrow> request \<Rightarrow> exn + string" where
  "fetch_text up rq =
     (case fetch up rq of
        Rejected \<Rightarrow> Inl FetchRejected
      | Response None \<Rightarrow> Inl BodyUnreadable
      | Response (Some t) \<Rightarrow> Inr t)"

definition fetch_json :: "'j upstream \<Rightarrow> request \<Rightarrow> exn + 'j" where
  "fetch_json up rq =
     (case fetch_text up rq of
        Inl e \<Rightarrow> Inl e
      | Inr t \<Rightarrow> (case parse up t of None \<Rightarrow> Inl JsonSyntaxError | Some j \<Rightarrow> Inr j))"

definition proxy_url :: "string \<Rightarrow> string \<Rightarrow> string \<Rightarrow> string" where
  "proxy_url h apiVersion endpoint = ''http://'' @ h @ ''/v'' @ apiVersion @ ''/'' @ endpoint"

definition get_request :: "string \<Rightarrow> request" where
  "get_request url = \<lparr> req_method = GET, req_url = url, req_headers = [], req_body = None \<rparr>"

definition post_request :: "string \<Rightarrow> string \<Rightarrow> request" where
  "post_request url body =
     \<lparr> req_method = POST, req_url = url,
       req_headers = [(''Content-Type'', ''application/json'')], req_body = Some body \<rparr>"

text \<open>
  A handler returns what it sent with \<open>res.json\<close> or \<open>res.send\<close>, and the requests it made
  to the device. The \<open>try\<close> block is the part that can throw; \<open>catch\<close> turns every
  exception into the \<open>Unreachable\<close> object. Nothing outside the \<open>try\<close> block can throw, so
  the result has no exception in it.
\<close>

definition get_try :: "'j upstream \<Rightarrow> string \<Rightarrow> string \<Rightarrow> exn + 'j reply" where
  "get_try up url endpoint =
     (if endpoint = ''schema''
      then (case fetch_text up (get_request url) of
              Inl e \<Rightarrow> Inl e | Inr body \<Rightarrow> Inr (Text_body body))
      else (case fetch_json up (get_request url) of
              Inl e \<Rightarrow> Inl e | Inr body \<Rightarrow> Inr (Json_body body)))"

definition proxy_get ::
  "'j upstream \<Rightarrow> string \<Rightarrow> string \<Rightarrow> string \<Rightarrow> 'j reply \<times> request list" where
  "proxy_get up h apiVersion endpoint =
     (if \<not> isValidHost h then (Error_object (''Invalid host: '' @ h), [])
      else if endpoint \<notin> set [''configuration'', ''schema'']
      then (Error_object (''Invalid endpoint: '' @ endpoint), [])
      else
        (let url = proxy_url h apiVersion endpoint in
           (case get_try up url endpoint of
              Inr r \<Rightarrow> (r, [get_request url])
            | Inl e \<Rightarrow> (Error_object (''Unreachable: '' @ url), [get_request url]))))"

text \<open>\<^verbatim>\<open>const postData = req.body || {}\<close>: no body is the empty object.\<close>

definition post_data :: "'j upstream \<Rightarrow> 'j option \<Rightarrow> string" where
  "post_data up body = (case body of None \<Rightarrow> ''{}'' | Some j \<Rightarrow> stringify up j)"

definition post_try :: "'j upstream \<Rightarrow> string \<Rightarrow> 'j option \<Rightarrow> exn + 'j reply" where
  "post_try up url body =
     (case fetch_json up (post_request url (post_data up body)) of
        Inl e \<Rightarrow> Inl e | Inr responseData \<Rightarrow> Inr (Json_body responseData))"

definition proxy_post ::
  "'j upstream \<Rightarrow> string \<Rightarrow> string \<Rightarrow> string \<Rightarrow> 'j option \<Rightarrow> 'j reply \<times> request list" where
  "proxy_post up h apiVersion endpoint body =
     (if \<not> isValidHost h then (Error_object (''Invalid host: '' @ h), [])
      else if endpoint \<notin> set [''configuration'', ''start'', ''stop'']
      then (Error_object (''Invalid endpoint: '' @ endpoint), [])
      else
        (let url = proxy_url h apiVersion endpoint;
             rq = post_request url (post_data up body) in
           (case post_try up url body of
              Inr r \<Rightarrow> (r, [rq])
            | Inl e \<Rightarrow> (Error_object (''Unreachable: '' @ url), [rq]))))"

text \<open>
  When the upstream request of a handler fails: the fetch rejects, the body cannot be read,
  or the body is not JSON where the handler decodes JSON (everywhere but \<open>GET schema\<close>,
  whose body is passed on as text).
\<close>

definition upstream_fails :: "'j upstream \<Rightarrow> request \<Rightarrow> bool \<Rightarrow> bool" where
  "upstream_fails up rq as_json =
     (case fetch up rq of
        Rejected \<Rightarrow> True
      | Response None \<Rightarrow> True
      | Response (Some t) \<Rightarrow> as_json \<and> parse up t = None)"

section \<open>Discovery registry (scanMdns and MDNS_SERVICES of the multicast-dns server variant)\<close>

text \<open>
  A device record has only optional fields; \<open>properties\<close> is the object built from the TXT
  entries, each key bound to a string or to \<open>true\<close>. The field names carry a prefix, since
  \<open>host\<close> and \<open>port\<close> are variables elsewhere.
\<close>

datatype txt_value = Str string | Flag

record MdnsDevice =
  dev_name :: "string option"
  dev_host :: "string option"
  dev_address :: "string option"
  dev_port :: "nat option"
  dev_properties :: "(string \<rightharpoonup> txt_value) option"

definition empty_device :: MdnsDevice where
  "empty_device =
     \<lparr> dev_name = None, dev_host = None, dev_address = None, dev_port = None,
       dev_properties = None \<rparr>"

text \<open>The resource records of a response, by type, each with the \<open>name\<close> it is about.\<close>

datatype answer =
    Ans_PTR string string
  | Ans_SRV string string nat
  | Ans_A string string
  | Ans_TXT string "string list"
  | Ans_other string

record packet =
  answers :: "answer list"
  additionals :: "answer list"

text \<open>
  \<open>MDNS_SERVICES\<close> is a plain object, so a lookup by name also finds what the object
  inherits from \<open>Object.prototype\<close>. By the language standard these are eleven functions
  and the accessor \<open>__proto__\<close>, which answers \<open>Object.prototype\<close> itself; none of them
  is enumerable. The registry is the own properties of the object (the device records) and
  a trace of the fields the code has written onto those built-in functions.
\<close>

definition function_properties :: "string list" where
  "function_properties =
     [''constructor'', ''hasOwnProperty'', ''isPrototypeOf'', ''propertyIsEnumerable'',
      ''toLocaleString'', ''toString'', ''valueOf'', ''__defineGetter__'',
      ''__defineSetter__'', ''__lookupGetter__'', ''__lookupSetter__'']"

record registry =
  entries :: "string \<rightharpoonup> MdnsDevice"
  builtin_writes :: "(string \<times> string) list"

definition empty_registry :: registry where
  "empty_registry = \<lparr> entries = Map.empty, builtin_writes = [] \<rparr>"

datatype property = Own MdnsDevice | Builtin_function | Prototype_object | Undefined

text \<open>\<^verbatim>\<open>MDNS_SERVICES[key]\<close>: an own property first, then the inherited ones.\<close>

definition get_property :: "registry \<Rightarrow> string \<Rightarrow> property" where
  "get_property rg key =
     (case entries rg key of
        Some d \<Rightarrow> Own d
      | None \<Rightarrow>
          if key = ''__proto__'' then Prototype_object
          else if key \<in> set function_properties then Builtin_function
          else Undefined)"

text \<open>A name that finds nothing inherited: the registry is a map for such names.\<close>

definition own_only :: "string \<Rightarrow> bool" where
  "own_only key = (key \<noteq> ''__proto__'' \<and> key \<notin> set function_properties)"

text \<open>
  Two ways the handler leaves the registry. The file is a module, hence strict code, and
  assigning the read-only \<open>name\<close> of a function throws a \<open>TypeError\<close>, which ends the
  handler. An assignment through \<open>__proto__\<close> succeeds and writes onto \<open>Object.prototype\<close>,
  from which every object of the process inherits, the records and the strings included:
  the model stops there and answers \<open>PrototypeWrite\<close>.
\<close>

datatype failure = TypeError | PrototypeWrite

text \<open>\<open>forEach\<close> with a body that may throw: the first failure ends the loop.\<close>

fun for_each :: "('a \<Rightarrow> registry \<Rightarrow> failure + registry) \<Rightarrow> 'a list \<Rightarrow> registry
    \<Rightarrow> failure + registry" where
  "for_each body [] rg = Inr rg"
| "for_each body (x # xs) rg =
     (case body x rg of Inl e \<Rightarrow> Inl e | Inr rg' \<Rightarrow> for_each body xs rg')"

definition service_type :: string where
  "service_type = ''_homedeck._tcp.local''"

fun is_service_ptr :: "answer \<Rightarrow> bool" where
  "is_service_ptr (Ans_PTR nm d) = (nm = service_type)"
| "is_service_ptr _ = False"

text \<open>
  The body of the loop over the PTR answers:
  \<^verbatim>\<open>if (!MDNS_SERVICES[host]) MDNS_SERVICES[host] = {}; MDNS_SERVICES[host].name = host\<close>.
  A record and both inherited kinds of value are truthy, so a new record is made only where
  the lookup finds nothing.
\<close>

fun ptr_answer :: "answer \<Rightarrow> registry \<Rightarrow> failure + registry" where
  "ptr_answer (Ans_PTR nm h) rg =
     (case get_property rg h of
        Undefined \<Rightarrow>
          Inr (rg\<lparr> entries := (entries rg)(h \<mapsto> empty_device\<lparr> dev_name := Some h \<rparr>) \<rparr>)
      | Own d \<Rightarrow> Inr (rg\<lparr> entries := (entries rg)(h \<mapsto> d\<lparr> dev_name := Some h \<rparr>) \<rparr>)
      | Builtin_function \<Rightarrow> Inl TypeError
      | Prototype_object \<Rightarrow> Inl PrototypeWrite)"
| "ptr_answer _ rg = Inr rg"

text \<open>
  \<^verbatim>\<open>const [key, value] = entry.split('='); txtObject[key] = value || true\<close>: a missing
  or empty value is the flag \<open>true\<close>, and what follows a second \<open>=\<close> is dropped. The key
  \<open>__proto__\<close> goes to the inherited setter, which ignores a string and \<open>true\<close>: nothing
  is stored.
\<close>

definition txt_entry :: "string \<Rightarrow> (string \<rightharpoonup> txt_value) \<Rightarrow> (string \<rightharpoonup> txt_value)" where
  "txt_entry entry obj =
     (let parts = split_on (CHR ''='') entry;
          key = hd parts;
          val = (case tl parts of [] \<Rightarrow> None | v # _ \<Rightarrow> Some v)
      in if key = ''__proto__'' then obj
         else obj(key \<mapsto> (case val of None \<Rightarrow> Flag
                              | Some v \<Rightarrow> if v = [] then Flag else Str v)))"

definition txt_object :: "string list \<Rightarrow> (string \<rightharpoonup> txt_value)" where
  "txt_object txtData = fold txt_entry txtData Map.empty"

text \<open>
  The body of the loop over the additional records: the \<open>switch\<close> on the type. The guard
  \<^verbatim>\<open>answer.name in MDNS_SERVICES\<close> holds for an inherited name as well; the fields are
  then set on the built-in function, or on \<open>Object.prototype\<close>. The loop
  \<^verbatim>\<open>for (const key in MDNS_SERVICES)\<close> of an address record visits the records only,
  the inherited properties not being enumerable.
\<close>

fun additional :: "answer \<Rightarrow> registry \<Rightarrow> failure + registry" where
  "additional (Ans_SRV nm target prt) rg =
     (case get_property rg nm of
        Undefined \<Rightarrow> Inr rg
      | Own d \<Rightarrow>
          Inr (rg\<lparr> entries := (entries rg)
                 (nm \<mapsto> d\<lparr> dev_host := Some target, dev_port := Some prt \<rparr>) \<rparr>)
      | Builtin_function \<Rightarrow>
          Inr (rg\<lparr> builtin_writes := builtin_writes rg @ [(nm, ''host''), (nm, ''port'')] \<rparr>)
      | Prototype_object \<Rightarrow> Inl PrototypeWrite)"
| "additional (Ans_A nm addr) rg =
     Inr (rg\<lparr> entries :=
            (\<lambda>key. map_option
                      (\<lambda>d. if dev_host d = Some nm then d\<lparr> dev_address := Some addr \<rparr> else d)
                      (entries rg key)) \<rparr>)"
| "additional (Ans_TXT nm txtData) rg =
     (case get_property rg nm of
        Undefined \<Rightarrow> Inr rg
      | Own d \<Rightarrow>
          Inr (rg\<lparr> entries := (entries rg)
                 (nm \<mapsto> d\<lparr> dev_properties := Some (txt_object txtData) \<rparr>) \<rparr>)
      | Builtin_function \<Rightarrow>
          Inr (rg\<lparr> builtin_writes := builtin_writes rg @ [(nm, ''properties'')] \<rparr>)
      | Prototype_object \<Rightarrow> Inl PrototypeWrite)"
| "additional _ rg = Inr rg"

text \<open>The handler of \<open>response\<close>: the PTR answers first, then the additional records.\<close>

definition on_response :: "packet \<Rightarrow> registry \<Rightarrow> failure + registry" where
  "on_response response rg =
     (case for_each ptr_answer (filter is_service_ptr (answers response)) rg of
        Inl e \<Rightarrow> Inl e
      | Inr rg' \<Rightarrow> for_each additional (additionals response) rg')"

text \<open>
  The four announcement fragments of one device, each a response of its own, and feeding a
  sequence of responses to the registry; a failure of one handler ends the sequence.
  \<open>device_after\<close> reads the record of a name from the outcome.
\<close>

definition name_fragment :: "string \<Rightarrow> packet" where
  "name_fragment nm = \<lparr> answers = [Ans_PTR service_type nm], additionals = [] \<rparr>"

definition location_fragment :: "string \<Rightarrow> string \<Rightarrow> nat \<Rightarrow> packet" where
  "location_fragment nm target prt = \<lparr> answers = [], additionals = [Ans_SRV nm target prt] \<rparr>"

definition address_fragment :: "string \<Rightarrow> string \<Rightarrow> packet" where
  "address_fragment target addr = \<lparr> answers = [], additionals = [Ans_A target addr] \<rparr>"

definition attributes_fragment :: "string \<Rightarrow> string list \<Rightarrow> packet" where
  "attributes_fragment nm txtData = \<lparr> answers = [], additionals = [Ans_TXT nm txtData] \<rparr>"

definition feed :: "packet list \<Rightarrow> registry \<Rightarrow> failure + registry" where
  "feed responses rg = for_each on_response responses rg"

definition device_after :: "failure + registry \<Rightarrow> string \<Rightarrow> failure + MdnsDevice option" where
  "device_after outcome nm =
     (case outcome of Inl e \<Rightarrow> Inl e | Inr rg \<Rightarrow> Inr (entries rg nm))"

definition complete_device :: "string \<Rightarrow> string \<Rightarrow> string \<Rightarrow> nat \<Rightarrow> string list \<Rightarrow> MdnsDevice" where
  "complete_device nm target addr prt txtData =
     \<lparr> dev_name = Some nm, dev_host = Some target, dev_address = Some addr,
       dev_port = Some prt, dev_properties = Some (txt_object txtData) \<rparr>"

section \<open>Reachable states and example inputs\<close>

text \<open>
  The states the gateway can be in: it starts with empty maps, and each step is a call of
  \<open>open\<close> or \<open>close\<close> by the front door, an event on an upstream socket, or a change of a
  browser socket's ready state.
\<close>

inductive reachable :: "world \<Rightarrow> bool" where
  start: "reachable (init_world cs)"
| opens: "reachable s \<Longrightarrow> reachable (snd (open_ws client host v s))"
| closes: "reachable s \<Longrightarrow> reachable (close_ws client host s)"
| connected: "reachable s \<Longrightarrow> reachable (remote_opened w s)"
| closing: "reachable s \<Longrightarrow> reachable (remote_closing w s)"
| disconnected: "reachable s \<Longrightarrow> reachable (remote_closed w s)"
| inbound: "reachable s \<Longrightarrow> reachable (remote_message w msg isBinary s)"
| client_state: "reachable s \<Longrightarrow> reachable (s\<lparr> clientReadyState := cs \<rparr>)"

text \<open>Every stored connection is a socket that was created, and created for its key.\<close>

definition connections_wf :: "world \<Rightarrow> bool" where
  "connections_wf s =
     (\<forall>h w. remoteConnections s h = Some w \<longrightarrow> w < length (created s) \<and> host_of s w = h)"

text \<open>
  Example inputs: a device address; the state after client 1 opened it (the upstream is
  connecting), the state once the upstream has connected, and the state after client 1
  closed again before the upstream's \<open>close\<close> event; a device that does not answer; the
  announcement data of one device.
\<close>

definition example_host :: string where
  "example_host = ''10.0.0.1:80''"

definition world_opened :: world where
  "world_opened = snd (open_ws 1 example_host ''1'' (init_world (\<lambda>_. OPEN)))"

definition world_connected :: world where
  "world_connected = remote_opened 0 world_opened"

definition world_closed :: world where
  "world_closed = close_ws 1 example_host world_opened"

text \<open>Two clients on the example host, the second of them no longer open.\<close>

definition world_two_clients :: world where
  "world_two_clients =
     (snd (open_ws 2 example_host ''1'' world_opened))
       \<lparr> clientReadyState := (\<lambda>_. OPEN)(2 := CLOSING) \<rparr>"

definition example_upstream :: "unit upstream" where
  "example_upstream =
     \<lparr> fetch = (\<lambda>_. Rejected), parse = (\<lambda>_. None), stringify = (\<lambda>_. ''null'') \<rparr>"

definition example_name :: string where
  "example_name = ''deck._homedeck._tcp.local''"

definition example_target :: string where
  "example_target = ''deck.local''"

definition example_txt :: "string list" where
  "example_txt = [''version=1.0'', ''api_version=1'']"

section \<open>Fan-out of an inbound message\<close>

lemma fold_send:
  "fold (\<lambda>client s'. if clientReadyState s' client = OPEN
                      then client_send client msg isBinary s' else s') cs s
   = s\<lparr> sent := sent s @ map (\<lambda>c. (c, msg, isBinary))
                            (filter (\<lambda>c. clientReadyState s c = OPEN) cs) \<rparr>"
  by (induction cs arbitrary: s) (simp_all add: client_send_def)

lemma on_message_eq:
  "on_message host msg isBinary s
   = s\<lparr> sent := sent s @ map (\<lambda>c. (c, msg, isBinary))
                            (filter (\<lambda>c. clientReadyState s c = OPEN)
                               (case clientGroups s host of None \<Rightarrow> [] | Some g \<Rightarrow> g)) \<rparr>"
  by (simp add: on_message_def fold_send)

section \<open>The host validator accepts bounded digit groups\<close>

lemma rmatch_Digit: "set (rmatch Digit s) = {t. \<exists>c. is_digit c \<and> s = c # t}"
  by (cases s) auto

lemma rmatch_Lit: "set (rmatch (Lit a) s) = {t. s = a # t}"
  by (cases s) auto

lemma digits_Nil: "digits lo hi [] = (lo = 0)"
  by (simp add: digits_def)

lemma digits_Cons: "digits lo (Suc hi) (c # p) = (is_digit c \<and> digits (lo - 1) hi p)"
  by (auto simp: digits_def)

lemma digits_zero: "digits lo 0 p = (p = [] \<and> lo = 0)"
  by (auto simp: digits_def)

lemma repeat_Digit:
  "set (repeat (rmatch Digit) lo hi s) = {t. \<exists>p. s = p @ t \<and> digits lo hi p}"
proof (induction hi arbitrary: lo s)
  case 0
  show ?case by (auto simp: digits_zero)
next
  case (Suc hi)
  show ?case (is "?L = ?R")
  proof (rule set_eqI)
    fix t
    show "t \<in> ?L \<longleftrightarrow> t \<in> ?R"
    proof
      assume "t \<in> ?L"
      then consider "lo = 0" "t = s"
        | c s' where "is_digit c" "s = c # s'" "t \<in> set (repeat (rmatch Digit) (lo - 1) hi s')"
        by (auto simp: rmatch_Digit split: if_splits)
      then show "t \<in> ?R"
      proof cases
        case 1
        then have "s = [] @ t \<and> digits lo (Suc hi) []" by (simp add: digits_Nil)
        then show ?thesis by blast
      next
        case 2
        then obtain p where "s' = p @ t" "digits (lo - 1) hi p" using Suc.IH by auto
        with 2 have "s = (c # p) @ t \<and> digits lo (Suc hi) (c # p)" by (simp add: digits_Cons)
        then show ?thesis by blast
      qed
    next
      assume "t \<in> ?R"
      then obtain p where p: "s = p @ t" "digits lo (Suc hi) p" by auto
      show "t \<in> ?L"
      proof (cases p)
        case Nil
        with p show ?thesis by (simp add: digits_Nil)
      next
        case (Cons c p')
        with p have "is_digit c" "digits (lo - 1) hi p'" "s = c # (p' @ t)"
          by (simp_all add: digits_Cons)
        then have "t \<in> set (repeat (rmatch Digit) (lo - 1) hi (p' @ t))"
          using Suc.IH by auto
        with \<open>is_digit c\<close> \<open>s = c # (p' @ t)\<close> show ?thesis
          by (auto simp: rmatch_Digit)
      qed
    qed
  qed
qed

lemma rmatch_Seq: "set (rmatch (Seq r1 r2) s) = (\<Union>t\<in>set (rmatch r1 s). set (rmatch r2 t))"
  by simp

lemma rmatch_Rep: "rmatch (Rep r lo hi) s = repeat (rmatch r) lo hi s"
  by simp

lemma rmatch_octet_dot:
  "set (rmatch (Seq (Rep Digit 1 3) (Lit (CHR ''.''))) s)
   = {t. \<exists>p. s = p @ CHR ''.'' # t \<and> digits 1 3 p}"
  by (simp only: rmatch_Seq rmatch_Rep repeat_Digit rmatch_Lit) auto

lemma repeat_3_3:
  "set (repeat m 3 3 s) = {t. \<exists>t1 t2. t1 \<in> set (m s) \<and> t2 \<in> set (m t1) \<and> t \<in> set (m t2)}"
  by (auto simp: eval_nat_numeral)

lemma rmatch_tail:
  "set (rmatch (Seq (Rep Digit 1 3) (Seq (Lit (CHR '':'')) (Rep Digit 1 5))) s)
   = {t. \<exists>d p. s = d @ CHR '':'' # p @ t \<and> digits 1 3 d \<and> digits 1 5 p}"
  by (simp only: rmatch_Seq rmatch_Rep repeat_Digit rmatch_Lit) auto

lemma rmatch_head:
  "set (rmatch (Rep (Seq (Rep Digit 1 3) (Lit (CHR ''.''))) 3 3) s)
   = {t. \<exists>a b c. s = a @ CHR ''.'' # b @ CHR ''.'' # c @ CHR ''.'' # t
          \<and> digits 1 3 a \<and> digits 1 3 b \<and> digits 1 3 c}"
  by (simp only: rmatch_Rep repeat_3_3 rmatch_octet_dot) auto

lemma regex_test_host:
  "regex_test host_regex s \<longleftrightarrow>
     (\<exists>a b c d p. s = a @ CHR ''.'' # b @ CHR ''.'' # c @ CHR ''.'' # d @ CHR '':'' # p
        \<and> digits 1 3 a \<and> digits 1 3 b \<and> digits 1 3 c \<and> digits 1 3 d \<and> digits 1 5 p)"
  (is "?L \<longleftrightarrow> ?R")
proof -
  have eq: "set (rmatch host_regex s)
    = (\<Union>t\<in>set (rmatch (Rep (Seq (Rep Digit 1 3) (Lit (CHR ''.''))) 3 3) s).
         set (rmatch (Seq (Rep Digit 1 3) (Seq (Lit (CHR '':'')) (Rep Digit 1 5))) t))"
    unfolding host_regex_def by (rule rmatch_Seq)
  have L: "?L \<longleftrightarrow>
     (\<exists>t. (\<exists>a b c. s = a @ CHR ''.'' # b @ CHR ''.'' # c @ CHR ''.'' # t
              \<and> digits 1 3 a \<and> digits 1 3 b \<and> digits 1 3 c)
        \<and> (\<exists>d p. t = d @ CHR '':'' # p @ [] \<and> digits 1 3 d \<and> digits 1 5 p))"
    unfolding regex_test_def eq rmatch_head rmatch_tail by blast
  show ?thesis
  proof
    assume ?L
    then obtain t a b c d p where
      "s = a @ CHR ''.'' # b @ CHR ''.'' # c @ CHR ''.'' # t" "t = d @ CHR '':'' # p @ []"
      "digits 1 3 a" "digits 1 3 b" "digits 1 3 c" "digits 1 3 d" "digits 1 5 p"
      unfolding L by blast
    then have "s = a @ CHR ''.'' # b @ CHR ''.'' # c @ CHR ''.'' # d @ CHR '':'' # p
        \<and> digits 1 3 a \<and> digits 1 3 b \<and> digits 1 3 c \<and> digits 1 3 d \<and> digits 1 5 p"
      by simp
    then show ?R by blast
  next
    assume ?R
    then obtain a b c d p where
      "s = a @ CHR ''.'' # b @ CHR ''.'' # c @ CHR ''.'' # d @ CHR '':'' # p"
      "digits 1 3 a" "digits 1 3 b" "digits 1 3 c" "digits 1 3 d" "digits 1 5 p"
      by blast
    then have "(\<exists>a' b' c'. s = a' @ CHR ''.'' # b' @ CHR ''.'' # c' @ CHR ''.'' # (d @ CHR '':'' # p)
              \<and> digits 1 3 a' \<and> digits 1 3 b' \<and> digits 1 3 c')
        \<and> (\<exists>d' p'. d @ CHR '':'' # p = d' @ CHR '':'' # p' @ [] \<and> digits 1 3 d' \<and> digits 1 5 p')"
      by (simp del: rmatch.simps) blast
    then show ?L unfolding L by blast
  qed
qed

lemma split_on_notin: "c \<notin> set x \<Longrightarrow> split_on c x = [x]"
  by (induction x) auto

lemma split_on_append: "c \<notin> set x \<Longrightarrow> split_on c (x @ c # y) = x # split_on c y"
  by (induction x) auto

lemma is_digit_not_sep: "is_digit c \<Longrightarrow> c \<noteq> CHR ''.'' \<and> c \<noteq> CHR '':''"
  by (auto simp: is_digit_def)

lemma digits_no_sep:
  "list_all is_digit p \<Longrightarrow> CHR ''.'' \<notin> set p \<and> CHR '':'' \<notin> set p"
  by (induction p) (auto dest: is_digit_not_sep)

lemma digit_val_nonneg: "is_digit c \<Longrightarrow> 0 \<le> digit_val c"
  by (auto simp: is_digit_def digit_val_def)

lemma fold_digits_nonneg:
  "list_all is_digit p \<Longrightarrow> 0 \<le> n \<Longrightarrow> 0 \<le> fold (\<lambda>c n. 10 * n + digit_val c) p n"
proof (induction p arbitrary: n)
  case Nil
  then show ?case by simp
next
  case (Cons c p)
  then have "0 \<le> 10 * n + digit_val c"
    using digit_val_nonneg [of c] by simp
  with Cons show ?case by simp
qed

lemma decimal_value_nonneg: "list_all is_digit p \<Longrightarrow> 0 \<le> decimal_value p"
  by (simp add: decimal_value_def fold_digits_nonneg)

lemma isValidHost_decomposed:
  assumes s: "s = a @ CHR ''.'' # b @ CHR ''.'' # c @ CHR ''.'' # d @ CHR '':'' # p"
    and dg: "digits 1 3 a" "digits 1 3 b" "digits 1 3 c" "digits 1 3 d" "digits 1 5 p"
  shows "isValidHost s \<longleftrightarrow>
     decimal_value a \<le> 255 \<and> decimal_value b \<le> 255 \<and> decimal_value c \<le> 255
     \<and> decimal_value d \<le> 255 \<and> 1 \<le> decimal_value p \<and> decimal_value p \<le> 65535"
proof -
  have la: "list_all is_digit a" "list_all is_digit b" "list_all is_digit c"
    "list_all is_digit d" "list_all is_digit p"
    using dg by (simp_all add: digits_def)
  have re: "regex_test host_regex s"
    unfolding regex_test_host using s dg by blast
  have ip: "CHR '':'' \<notin> set (a @ CHR ''.'' # b @ CHR ''.'' # c @ CHR ''.'' # d)"
    using la by (simp add: digits_no_sep)
  have "s = (a @ CHR ''.'' # b @ CHR ''.'' # c @ CHR ''.'' # d) @ CHR '':'' # p"
    using s by simp
  then have parts: "split_on (CHR '':'') s = [a @ CHR ''.'' # b @ CHR ''.'' # c @ CHR ''.'' # d, p]"
    using split_on_append [OF ip, of p] la(5) by (simp add: split_on_notin digits_no_sep)
  have octs: "split_on (CHR ''.'') (a @ CHR ''.'' # b @ CHR ''.'' # c @ CHR ''.'' # d) = [a, b, c, d]"
    using la by (simp add: split_on_append split_on_notin digits_no_sep)
  have nn: "0 \<le> decimal_value a" "0 \<le> decimal_value b" "0 \<le> decimal_value c"
    "0 \<le> decimal_value d"
    using la by (simp_all add: decimal_value_nonneg)
  show ?thesis
    using re la nn by (simp add: isValidHost_def parts octs Number_def)
qed

lemma octet_text_digits: "octet_text x \<longleftrightarrow> digits 1 3 x \<and> decimal_value x \<le> 255"
  by (auto simp: octet_text_def digits_def)

lemma port_text_digits:
  "port_text x \<longleftrightarrow> digits 1 5 x \<and> 1 \<le> decimal_value x \<and> decimal_value x \<le> 65535"
  by (auto simp: port_text_def digits_def)

lemma isValidHost_regex: "isValidHost s \<Longrightarrow> regex_test host_regex s"
  by (simp add: isValidHost_def split: if_splits)

lemma isValidHost_shape:
  "isValidHost s \<longleftrightarrow>
     (\<exists>a b c d p. s = a @ ''.'' @ b @ ''.'' @ c @ ''.'' @ d @ '':'' @ p
        \<and> octet_text a \<and> octet_text b \<and> octet_text c \<and> octet_text d \<and> port_text p)"
  (is "?L \<longleftrightarrow> ?R")
proof
  assume L: ?L
  then have "regex_test host_regex s"
    by (rule isValidHost_regex)
  then obtain a b c d p where
    s: "s = a @ CHR ''.'' # b @ CHR ''.'' # c @ CHR ''.'' # d @ CHR '':'' # p"
    and dg: "digits 1 3 a" "digits 1 3 b" "digits 1 3 c" "digits 1 3 d" "digits 1 5 p"
    unfolding regex_test_host by blast
  from L isValidHost_decomposed [OF s dg] dg
  have ot: "octet_text a" "octet_text b" "octet_text c" "octet_text d" "port_text p"
    by (simp_all add: octet_text_digits port_text_digits)
  from s have s': "s = a @ ''.'' @ b @ ''.'' @ c @ ''.'' @ d @ '':'' @ p"
    by simp
  show ?R
    by (intro exI conjI) (rule s' ot)+
next
  assume ?R
  then obtain a b c d p where
    s': "s = a @ ''.'' @ b @ ''.'' @ c @ ''.'' @ d @ '':'' @ p"
    and ot: "octet_text a" "octet_text b" "octet_text c" "octet_text d" "port_text p"
    by (elim exE conjE)
  from s' have s: "s = a @ CHR ''.'' # b @ CHR ''.'' # c @ CHR ''.'' # d @ CHR '':'' # p"
    by simp
  from ot have dg: "digits 1 3 a" "digits 1 3 b" "digits 1 3 c" "digits 1 3 d" "digits 1 5 p"
    by (simp_all add: octet_text_digits port_text_digits)
  from isValidHost_decomposed [OF s dg] ot show ?L
    by (simp add: octet_text_digits port_text_digits)
qed

lemma isValidHost_examples:
  "isValidHost ''127.0.0.1:8080''" "\<not> isValidHost ''256.1.1.1:80''"
  "\<not> isValidHost ''10.0.0.1:0''" "isValidHost ''10.0.0.1:65535''"
  "\<not> isValidHost ''localhost:80''"
  by code_simp+

text \<open>
  C6, as the code has it. \<open>isValidHost s\<close> holds exactly when \<open>s\<close> is four groups of one to
  three decimal digits, each of value at most 255, joined by dots, then a colon, then one
  to five decimal digits of value from 1 to 65535. The five examples of the specification
  come out as it says.
\<close>

theorem isValidHost_iff_bounded_digit_groups:
  "(isValidHost s \<longleftrightarrow>
     (\<exists>a b c d p. s = a @ ''.'' @ b @ ''.'' @ c @ ''.'' @ d @ '':'' @ p
        \<and> octet_text a \<and> octet_text b \<and> octet_text c \<and> octet_text d \<and> port_text p))
   \<and> isValidHost ''127.0.0.1:8080'' \<and> \<not> isValidHost ''256.1.1.1:80''
   \<and> \<not> isValidHost ''10.0.0.1:0'' \<and> isValidHost ''10.0.0.1:65535''
   \<and> \<not> isValidHost ''localhost:80''"
  by (intro conjI) (rule isValidHost_shape isValidHost_examples)+

text \<open>
  C6, as the specification words it, fails: \<open>0000.0.0.1:80\<close> is four dot-separated decimal
  integers in [0,255], a colon and a decimal integer in [1,65535], and the code rejects
  it, the first group having four digits. Leading zeros as such are accepted, as
  \<open>01.02.03.04:00080\<close> shows, so the code does not ask for integers written without them
  either.
\<close>

theorem isValidHost_leading_zeros_counterexample:
  "spec_isValidHost ''0000.0.0.1:80'' \<and> \<not> isValidHost ''0000.0.0.1:80''
   \<and> isValidHost ''01.02.03.04:00080''"
  by code_simp

section \<open>Relay manager: sharing, teardown and repeated close\<close>

lemma open_new_fields:
  "fst (open_new client host v s) = length (created s)"
  "created (snd (open_new client host v s)) = created s @ [(host, ws_url host v)]"
  "remoteConnections (snd (open_new client host v s)) = (remoteConnections s)(host \<mapsto> length (created s))"
  "clientGroups (snd (open_new client host v s)) = (clientGroups s)(host \<mapsto> [client])"
  "remoteReadyState (snd (open_new client host v s)) = (remoteReadyState s)(length (created s) := CONNECTING)"
  "clientReadyState (snd (open_new client host v s)) = clientReadyState s"
  "closeCalls (snd (open_new client host v s)) = closeCalls s"
  "sent (snd (open_new client host v s)) = sent s"
  by (simp_all add: open_new_def Let_def)

lemma open_ws_absent:
  "remoteConnections s host = None \<Longrightarrow> open_ws client host v s = open_new client host v s"
  by (simp add: open_ws_def)

lemma open_ws_OPEN:
  "remoteConnections s host = Some w \<Longrightarrow> remoteReadyState s w = OPEN
   \<Longrightarrow> open_ws client host v s = open_new client host v s"
  by (simp add: open_ws_def)

lemma open_ws_not_OPEN:
  "remoteConnections s host = Some w \<Longrightarrow> remoteReadyState s w \<noteq> OPEN
   \<Longrightarrow> open_ws client host v s = (w, registerClient client host s)"
  by (simp add: open_ws_def)

lemma world_opened_fields:
  "remoteConnections world_opened example_host = Some 0"
  "clientGroups world_opened example_host = Some [1]"
  "remoteReadyState world_opened 0 = CONNECTING"
  "created world_opened = [(example_host, ws_url example_host ''1'')]"
  "closeCalls world_opened = []"
  by (simp_all add: world_opened_def open_ws_def open_new_def init_world_def Let_def)

lemma world_connected_fields:
  "remoteConnections world_connected example_host = Some 0"
  "clientGroups world_connected example_host = Some [1]"
  "remoteReadyState world_connected 0 = OPEN"
  "created world_connected = [(example_host, ws_url example_host ''1'')]"
  "closeCalls world_connected = []"
  by (simp_all add: world_connected_def remote_opened_def on_open_def world_opened_fields)

lemma close_ws_last:
  assumes "clientGroups s host = Some [client]" "remoteConnections s host = Some w"
  shows "close_ws client host s
    = (ws_close w s)\<lparr> clientGroups := (clientGroups s)(host := None) \<rparr>"
  using assms by (simp add: close_ws_def set_delete_def ws_close_def Let_def)

lemma world_closed_eq:
  "world_closed
   = (ws_close 0 world_opened)\<lparr> clientGroups := (clientGroups world_opened)(example_host := None) \<rparr>"
  unfolding world_closed_def by (rule close_ws_last [OF world_opened_fields(2,1)])

lemma world_closed_fields:
  "remoteConnections world_closed example_host = Some 0"
  "clientGroups world_closed example_host = None"
  "remoteReadyState world_closed 0 = CLOSING"
  "created world_closed = [(example_host, ws_url example_host ''1'')]"
  "closeCalls world_closed = [0]"
  by (simp_all add: world_closed_eq ws_close_def world_opened_fields)

lemma close_ws_not_member:
  assumes "clientGroups s host = Some g" "client \<notin> set g" "g \<noteq> []"
  shows "close_ws client host s = s"
proof -
  have "(clientGroups s)(host \<mapsto> g) = clientGroups s"
    using assms(1) by (rule map_upd_triv)
  then show ?thesis
    using assms by (simp add: close_ws_def set_delete_def Let_def)
qed

lemma close_ws_no_group:
  assumes "clientGroups s host = None"
  shows "close_ws client host s
    = (case remoteConnections s host of None \<Rightarrow> s | Some w \<Rightarrow> ws_close w s)"
proof -
  have "(clientGroups s)(host := None) = clientGroups s"
    using assms by (simp add: fun_upd_idem)
  then show ?thesis
    using assms by (simp add: close_ws_def Let_def ws_close_def split: option.splits)
qed

lemma close_ws_post:
  "clientGroups (close_ws client host s) host = None
   \<or> (\<exists>g. clientGroups (close_ws client host s) host = Some g \<and> client \<notin> set g \<and> g \<noteq> [])"
  by (cases "clientGroups s host")
     (simp_all add: close_ws_def set_delete_def Let_def ws_close_def split: option.splits)

lemma on_message_fields:
  "remoteConnections (on_message h msg b s) = remoteConnections s"
  "created (on_message h msg b s) = created s"
  by (simp_all add: on_message_eq)

lemma connections_wf_open_new:
  "connections_wf s \<Longrightarrow> connections_wf (snd (open_new client host v s))"
  by (fastforce simp: connections_wf_def open_new_fields host_of_def nth_append less_Suc_eq)

lemma connections_wf_registerClient:
  "connections_wf s \<Longrightarrow> connections_wf (registerClient client host s)"
  by (auto simp: connections_wf_def registerClient_def host_of_def split: option.splits)

lemma connections_wf_open_ws:
  "connections_wf s \<Longrightarrow> connections_wf (snd (open_ws client host v s))"
  by (simp add: open_ws_def connections_wf_open_new connections_wf_registerClient
      split: option.splits)

lemma connections_wf_close_ws:
  "connections_wf s \<Longrightarrow> connections_wf (close_ws client host s)"
  by (auto simp: connections_wf_def close_ws_def ws_close_def host_of_def Let_def
      split: option.splits)

lemma connections_wf_remote_opened:
  "connections_wf s \<Longrightarrow> connections_wf (remote_opened w s)"
  by (auto simp: connections_wf_def remote_opened_def on_open_def host_of_def)

lemma connections_wf_remote_closing:
  "connections_wf s \<Longrightarrow> connections_wf (remote_closing w s)"
  by (auto simp: connections_wf_def remote_closing_def host_of_def)

lemma connections_wf_remote_closed:
  "connections_wf s \<Longrightarrow> connections_wf (remote_closed w s)"
  by (auto simp: connections_wf_def remote_closed_def on_close_def host_of_def split: if_splits)

lemma connections_wf_remote_message:
  "connections_wf s \<Longrightarrow> connections_wf (remote_message w msg b s)"
  by (auto simp: connections_wf_def remote_message_def on_message_fields host_of_def)

lemma reachable_connections_wf: "reachable s \<Longrightarrow> connections_wf s"
proof (induction rule: reachable.induct)
  case (start cs)
  show ?case by (simp add: connections_wf_def init_world_def)
next
  case (client_state s cs)
  then show ?case by (simp add: connections_wf_def host_of_def)
qed (simp_all add: connections_wf_open_ws connections_wf_close_ws connections_wf_remote_opened
      connections_wf_remote_closing connections_wf_remote_closed connections_wf_remote_message)

lemma reachable_conn:
  "reachable s \<Longrightarrow> remoteConnections s h = Some w \<Longrightarrow> w < length (created s) \<and> host_of s w = h"
  using reachable_connections_wf by (simp add: connections_wf_def)

lemma reachable_examples:
  "reachable world_opened" "reachable world_connected" "reachable world_closed"
  unfolding world_opened_def world_connected_def world_closed_def
  by (intro reachable.intros)+

text \<open>
  C3. When a message arrives from upstream for a host whose entry in \<open>clientGroups\<close> is the
  group \<open>g\<close>, the handler sends that message, with the \<open>isBinary\<close> flag it came with, to
  the members of \<open>g\<close> whose ready state is \<open>OPEN\<close>, once each in the order of the group,
  and to no one else: a client is a recipient exactly when it is in \<open>g\<close> and open. A host
  without an entry gets no send. The groups and the ready states are left as they were, so
  a member in another state is skipped and stays a member.
\<close>

theorem on_message_fans_out_to_open_members:
  "(clientGroups s host = Some g \<longrightarrow>
      sent (on_message host msg isBinary s)
        = sent s @ map (\<lambda>c. (c, msg, isBinary)) (filter (\<lambda>c. clientReadyState s c = OPEN) g)
      \<and> (\<forall>c. (c, msg, isBinary) \<in> set (drop (length (sent s))
                                            (sent (on_message host msg isBinary s)))
             \<longleftrightarrow> c \<in> set g \<and> clientReadyState s c = OPEN))
   \<and> (clientGroups s host = None \<longrightarrow> sent (on_message host msg isBinary s) = sent s)
   \<and> clientGroups (on_message host msg isBinary s) = clientGroups s
   \<and> clientReadyState (on_message host msg isBinary s) = clientReadyState s"
  by (auto simp: on_message_eq)

theorem on_message_fans_out_to_open_members_witness:
  "clientGroups world_two_clients example_host = Some [1, 2]
   \<and> clientReadyState world_two_clients 1 = OPEN
   \<and> clientReadyState world_two_clients 2 = CLOSING
   \<and> sent (on_message example_host ''status'' False world_two_clients)
       = [(1, ''status'', False)]
   \<and> clientGroups (on_message example_host ''status'' False world_two_clients) example_host
       = Some [1, 2]
   \<and> clientGroups (init_world (\<lambda>_. OPEN)) example_host = None
   \<and> sent (on_message example_host ''status'' False (init_world (\<lambda>_. OPEN))) = []"
proof -
  have g: "clientGroups world_two_clients example_host = Some [1, 2]"
    by (simp add: world_two_clients_def open_ws_not_OPEN [OF world_opened_fields(1)]
        world_opened_fields registerClient_def set_add_def)
  have st: "clientReadyState world_two_clients 1 = OPEN"
    "clientReadyState world_two_clients 2 = CLOSING"
    by (simp_all add: world_two_clients_def)
  have se: "sent world_two_clients = []"
    by (simp add: world_two_clients_def open_ws_not_OPEN [OF world_opened_fields(1)]
        world_opened_fields registerClient_def world_opened_def open_ws_def open_new_def
        init_world_def)
  have n: "clientGroups (init_world (\<lambda>_. OPEN)) example_host = None"
    "sent (init_world (\<lambda>_. OPEN)) = []"
    by (simp_all add: init_world_def)
  note two = on_message_fans_out_to_open_members
    [of world_two_clients example_host "[1, 2]" "''status''" False]
  note none = on_message_fans_out_to_open_members
    [of "init_world (\<lambda>_. OPEN)" example_host "[]" "''status''" False]
  have a: "sent (on_message example_host ''status'' False world_two_clients)
       = [(1, ''status'', False)]"
    using two g st se by simp
  have b: "clientGroups (on_message example_host ''status'' False world_two_clients) example_host
       = Some [1, 2]"
    using two g by simp
  have c: "sent (on_message example_host ''status'' False (init_world (\<lambda>_. OPEN))) = []"
    using none n by simp
  from g st a b n(1) c show ?thesis
    by (intro conjI)
qed

text \<open>
  C1. One upstream connection per host, shared whatever its ready state: the code does not
  do this. A first client opens a host, the upstream connects, a second client opens the
  same host: \<open>open\<close> creates a second upstream socket, while the first one is still open and
  has never been closed, and the group of the host holds the second client only.
\<close>

theorem second_open_on_connected_upstream_creates_second_connection:
  "(let (r1, s1) = open_ws c1 host v1 (init_world cs);
        s2 = remote_opened r1 s1;
        (r2, s3) = open_ws c2 host v2 s2
    in r1 = 0 \<and> r2 = 1
       \<and> created s3 = [(host, ws_url host v1), (host, ws_url host v2)]
       \<and> remoteReadyState s3 r1 = OPEN \<and> remoteReadyState s3 r2 = CONNECTING
       \<and> closeCalls s3 = []
       \<and> remoteConnections s3 host = Some r2
       \<and> clientGroups s3 host = Some [c2])"
  by (simp add: open_ws_def open_new_def init_world_def remote_opened_def on_open_def
      host_of_def Let_def)

text \<open>
  C10. When \<open>open\<close> finds the connection of the host in state \<open>OPEN\<close>, it creates a new
  upstream socket and stores it under the host, and the group of the host becomes the new
  client alone. Afterwards a member of any group is the new client in this group, or a
  member of another host's group as before: a client that was registered for this host
  only, and is not the new client, is in no group. A message for the host is then sent to
  the new client at most.
\<close>

theorem open_on_open_connection_replaces_connection_and_group:
  assumes re: "reachable s"
    and conn: "remoteConnections s host = Some w"
    and st: "remoteReadyState s w = OPEN"
  shows "fst (open_ws client host v s) = length (created s)
    \<and> fst (open_ws client host v s) \<noteq> w
    \<and> created (snd (open_ws client host v s)) = created s @ [(host, ws_url host v)]
    \<and> remoteConnections (snd (open_ws client host v s)) host = Some (length (created s))
    \<and> clientGroups (snd (open_ws client host v s)) host = Some [client]
    \<and> (\<forall>c h. c \<in> set (group_members (snd (open_ws client host v s)) h) \<longrightarrow>
          (h = host \<and> c = client) \<or> (h \<noteq> host \<and> c \<in> set (group_members s h)))
    \<and> (\<forall>c. c \<noteq> client \<and> (\<forall>h. h \<noteq> host \<longrightarrow> c \<notin> set (group_members s h)) \<longrightarrow>
          (\<forall>h. c \<notin> set (group_members (snd (open_ws client host v s)) h)))
    \<and> sent (on_message host msg isBinary (snd (open_ws client host v s)))
        = sent s @ (if clientReadyState s client = OPEN then [(client, msg, isBinary)] else [])"
proof -
  have "w < length (created s)"
    using reachable_conn [OF re conn] by simp
  then show ?thesis
    by (simp add: open_ws_OPEN [OF conn st] open_new_fields on_message_eq group_members_def)
qed

theorem open_on_open_connection_replaces_connection_and_group_witness:
  "reachable world_connected
   \<and> remoteConnections world_connected example_host = Some 0
   \<and> remoteReadyState world_connected 0 = OPEN
   \<and> fst (open_ws 2 example_host ''1'' world_connected) = 1
   \<and> clientGroups (snd (open_ws 2 example_host ''1'' world_connected)) example_host = Some [2]
   \<and> (\<forall>h. 1 \<notin> set (group_members (snd (open_ws 2 example_host ''1'' world_connected)) h))"
proof -
  note inst = open_on_open_connection_replaces_connection_and_group
    [OF reachable_examples(2) world_connected_fields(1) world_connected_fields(3),
     of 2 "''1''" "''status''" False]
  have only: "\<forall>h. h \<noteq> example_host \<longrightarrow> 1 \<notin> set (group_members world_connected h)"
    by (simp add: group_members_def world_connected_def remote_opened_def on_open_def
        world_opened_def open_ws_def open_new_def init_world_def)
  have "\<forall>h. 1 \<notin> set (group_members (snd (open_ws 2 example_host ''1'' world_connected)) h)"
  proof -
    have ne: "(1::nat) \<noteq> 2" by simp
    from inst have "\<forall>c. c \<noteq> 2 \<and> (\<forall>h. h \<noteq> example_host \<longrightarrow> c \<notin> set (group_members world_connected h)) \<longrightarrow>
          (\<forall>h. c \<notin> set (group_members (snd (open_ws 2 example_host ''1'' world_connected)) h))"
      by (elim conjE) assumption
    with ne only show ?thesis by blast
  qed
  then show ?thesis
    using inst reachable_examples(2) world_connected_fields by simp
qed

text \<open>
  C2, as the specification words it, fails on the connection entry. After the only client
  of the example host has closed, the group entry is gone but the connection entry is
  still there, and an \<open>open\<close> that follows at once returns the old socket and creates none.
\<close>

theorem last_close_keeps_connection_entry_counterexample:
  "clientGroups world_opened example_host = Some [1]
   \<and> world_closed = close_ws 1 example_host world_opened
   \<and> clientGroups world_closed example_host = None
   \<and> remoteConnections world_closed example_host = Some 0
   \<and> fst (open_ws 2 example_host ''1'' world_closed) = 0
   \<and> created (snd (open_ws 2 example_host ''1'' world_closed)) = created world_closed"
proof -
  have "world_closed = close_ws 1 example_host world_opened"
    by (rule world_closed_def)
  moreover have "fst (open_ws 2 example_host ''1'' world_closed) = 0
    \<and> created (snd (open_ws 2 example_host ''1'' world_closed)) = created world_closed"
    using world_closed_fields
    by (simp add: open_ws_not_OPEN [of world_closed example_host 0] registerClient_def)
  ultimately show ?thesis
    using world_closed_fields(1,2) world_opened_fields(2) by (intro conjI) simp_all
qed

text \<open>
  C2, as the code has it. When \<open>close\<close> removes the last member of the group of a host
  that has a connection, it calls \<open>close()\<close> on that connection and deletes the group
  entry; the connection entry stays until the \<open>close\<close> event of the upstream socket,
  whose handler deletes it. From then on the key is gone from both maps, and the next
  \<open>open\<close> for the host creates a new upstream socket.
\<close>

theorem last_close_then_close_event_removes_relay_key:
  assumes re: "reachable s"
    and grp: "clientGroups s host = Some [client]"
    and conn: "remoteConnections s host = Some w"
  shows "closeCalls (close_ws client host s) = closeCalls s @ [w]
    \<and> clientGroups (close_ws client host s) host = None
    \<and> remoteConnections (close_ws client host s) host = Some w
    \<and> remoteConnections (remote_closed w (close_ws client host s)) host = None
    \<and> clientGroups (remote_closed w (close_ws client host s)) host = None
    \<and> fst (open_ws c2 host v (remote_closed w (close_ws client host s))) = length (created s)
    \<and> fst (open_ws c2 host v (remote_closed w (close_ws client host s))) \<noteq> w
    \<and> created (snd (open_ws c2 host v (remote_closed w (close_ws client host s))))
        = created s @ [(host, ws_url host v)]"
proof -
  let ?s1 = "close_ws client host s"
  let ?s2 = "remote_closed w ?s1"
  have wf: "w < length (created s)" "host_of s w = host"
    using reachable_conn [OF re conn] by simp_all
  have s1: "?s1 = (ws_close w s)\<lparr> clientGroups := (clientGroups s)(host := None) \<rparr>"
    by (rule close_ws_last [OF grp conn])
  have c1: "created ?s1 = created s"
    by (simp add: s1 ws_close_def)
  have h1: "host_of ?s1 w = host"
    using wf by (simp add: host_of_def c1)
  have s2: "?s2 = on_close host (?s1\<lparr> remoteReadyState := (remoteReadyState ?s1)(w := CLOSED) \<rparr>)"
    using wf by (simp add: remote_closed_def c1 h1)
  have none: "remoteConnections ?s2 host = None"
    by (simp add: s2 on_close_def)
  have c2: "created ?s2 = created s"
    by (simp add: s2 on_close_def c1)
  have op: "open_ws c2 host v ?s2 = open_new c2 host v ?s2"
    by (rule open_ws_absent [OF none])
  have a: "closeCalls ?s1 = closeCalls s @ [w]"
    by (simp add: s1 ws_close_def)
  have b: "clientGroups ?s1 host = None"
    by (simp add: s1)
  have c: "remoteConnections ?s1 host = Some w"
    by (simp add: s1 ws_close_def conn)
  have d: "clientGroups ?s2 host = None"
    by (simp add: s2 on_close_def b)
  have e: "fst (open_ws c2 host v ?s2) = length (created s)"
    by (simp add: op open_new_fields c2)
  have f: "created (snd (open_ws c2 host v ?s2)) = created s @ [(host, ws_url host v)]"
    by (simp add: op open_new_fields c2)
  have e': "fst (open_ws c2 host v ?s2) \<noteq> w"
    using wf(1) by (simp add: e)
  from a b c none d e e' f show ?thesis
    by (intro conjI)
qed

theorem last_close_then_close_event_removes_relay_key_witness:
  "reachable world_opened
   \<and> clientGroups world_opened example_host = Some [1]
   \<and> remoteConnections world_opened example_host = Some 0
   \<and> closeCalls (close_ws 1 example_host world_opened) = [0]
   \<and> remoteConnections (remote_closed 0 (close_ws 1 example_host world_opened)) example_host
       = None
   \<and> clientGroups (remote_closed 0 (close_ws 1 example_host world_opened)) example_host = None
   \<and> fst (open_ws 2 example_host ''1'' (remote_closed 0 (close_ws 1 example_host world_opened)))
       = 1"
  using last_close_then_close_event_removes_relay_key
      [OF reachable_examples(1) world_opened_fields(2) world_opened_fields(1), of 2 "''1''"]
    reachable_examples(1) world_opened_fields
  by simp




text \<open>
  C5, as the specification words it, fails on the second call of \<open>close()\<close>: client 1 closes
  the example host, which calls \<open>close()\<close> on upstream socket 0, and closes it again before
  the \<open>close\<close> event of the socket; the second \<open>close\<close> finds no group, finds the
  connection entry still there, and calls \<open>close()\<close> on socket 0 again.
\<close>

theorem second_close_calls_upstream_close_again_counterexample:
  "closeCalls world_closed = [0] \<and> closeCalls (close_ws 1 example_host world_closed) = [0, 0]"
  using world_closed_fields
  by (simp add: close_ws_def ws_close_def Let_def)

text \<open>
  C5, as the code has it. \<open>close\<close> is a total function of the state: no case raises. A
  \<open>close\<close> for a client that is not in the (non-empty) group of the host changes nothing.
  A \<open>close\<close> for a host without a group changes nothing when the host has no connection
  entry either; when the entry is still there, it calls \<open>close()\<close> on that socket once
  more and leaves both maps as they are. A second \<open>close\<close> of the same client and host
  after any first one is one of these cases.
\<close>

theorem repeated_close_changes_no_map:
  "(clientGroups s host = Some g \<and> client \<notin> set g \<and> g \<noteq> []
      \<longrightarrow> close_ws client host s = s)
   \<and> (clientGroups s host = None \<and> remoteConnections s host = None
      \<longrightarrow> close_ws client host s = s)
   \<and> (clientGroups s host = None \<and> remoteConnections s host = Some w
      \<longrightarrow> close_ws client host s = ws_close w s
        \<and> clientGroups (close_ws client host s) = clientGroups s
        \<and> remoteConnections (close_ws client host s) = remoteConnections s
        \<and> closeCalls (close_ws client host s) = closeCalls s @ [w])
   \<and> close_ws client host (close_ws client host s)
      = (case remoteConnections (close_ws client host s) host of
           None \<Rightarrow> close_ws client host s
         | Some w' \<Rightarrow> if clientGroups (close_ws client host s) host = None
                      then ws_close w' (close_ws client host s)
                      else close_ws client host s)"
proof (intro conjI impI)
  assume "clientGroups s host = Some g \<and> client \<notin> set g \<and> g \<noteq> []"
  then show "close_ws client host s = s"
    by (simp add: close_ws_not_member)
next
  assume "clientGroups s host = None \<and> remoteConnections s host = None"
  then show "close_ws client host s = s"
    by (simp add: close_ws_no_group)
next
  assume a: "clientGroups s host = None \<and> remoteConnections s host = Some w"
  then show eq: "close_ws client host s = ws_close w s"
    by (simp add: close_ws_no_group)
  show "clientGroups (close_ws client host s) = clientGroups s"
    by (simp add: eq ws_close_def)
  show "remoteConnections (close_ws client host s) = remoteConnections s"
    by (simp add: eq ws_close_def)
  show "closeCalls (close_ws client host s) = closeCalls s @ [w]"
    by (simp add: eq ws_close_def)
next
  let ?s1 = "close_ws client host s"
  from close_ws_post [of client host s]
  show "close_ws client host ?s1
      = (case remoteConnections ?s1 host of
           None \<Rightarrow> ?s1
         | Some w' \<Rightarrow> if clientGroups ?s1 host = None then ws_close w' ?s1 else ?s1)"
  proof
    assume n: "clientGroups ?s1 host = None"
    show ?thesis
      by (simp add: close_ws_no_group [OF n] n split: option.splits)
  next
    assume "\<exists>g. clientGroups ?s1 host = Some g \<and> client \<notin> set g \<and> g \<noteq> []"
    then obtain g' where g: "clientGroups ?s1 host = Some g'" "client \<notin> set g'" "g' \<noteq> []"
      by blast
    show ?thesis
      by (simp add: close_ws_not_member [OF g] g split: option.splits)
  qed
qed

theorem repeated_close_changes_no_map_witness:
  "(clientGroups world_opened example_host = Some [1] \<and> 2 \<notin> set [1::nat] \<and> [1::nat] \<noteq> []
      \<and> close_ws 2 example_host world_opened = world_opened)
   \<and> (clientGroups (init_world (\<lambda>_. OPEN)) example_host = None
      \<and> remoteConnections (init_world (\<lambda>_. OPEN)) example_host = None
      \<and> close_ws 1 example_host (init_world (\<lambda>_. OPEN)) = init_world (\<lambda>_. OPEN))
   \<and> (clientGroups world_closed example_host = None
      \<and> remoteConnections world_closed example_host = Some 0
      \<and> remoteConnections (close_ws 1 example_host world_closed)
          = remoteConnections world_closed
      \<and> closeCalls (close_ws 1 example_host world_closed) = closeCalls world_closed @ [0])"
proof -
  have g: "clientGroups world_opened example_host = Some [1] \<and> 2 \<notin> set [1::nat]
      \<and> [1::nat] \<noteq> []"
    using world_opened_fields(2) by simp
  have i: "clientGroups (init_world (\<lambda>_. OPEN)) example_host = None
      \<and> remoteConnections (init_world (\<lambda>_. OPEN)) example_host = None"
    by (simp add: init_world_def)
  have c: "clientGroups world_closed example_host = None
      \<and> remoteConnections world_closed example_host = Some 0"
    using world_closed_fields(1,2) by simp
  from g repeated_close_changes_no_map
    [where s = world_opened and host = example_host and g = "[1]" and client = 2 and w = 0]
  have 1: "close_ws 2 example_host world_opened = world_opened"
    by blast
  from i repeated_close_changes_no_map
    [where s = "init_world (\<lambda>_. OPEN)" and host = example_host and g = "[]"
       and client = 1 and w = 0]
  have 2: "close_ws 1 example_host (init_world (\<lambda>_. OPEN)) = init_world (\<lambda>_. OPEN)"
    by blast
  from c repeated_close_changes_no_map
    [where s = world_closed and host = example_host and g = "[]" and client = 1 and w = 0]
  have 3: "remoteConnections (close_ws 1 example_host world_closed)
          = remoteConnections world_closed
      \<and> closeCalls (close_ws 1 example_host world_closed) = closeCalls world_closed @ [0]"
    by blast
  from g i c 1 2 3 show ?thesis
    by blast
qed

section \<open>Proxy routes: whitelist and unreachable devices\<close>

lemma example_host_valid: "isValidHost example_host"
  unfolding example_host_def by code_simp

text \<open>
  C7. With a valid host, an operation outside the whitelist of the method (\<open>configuration\<close>
  and \<open>schema\<close> for GET; \<open>configuration\<close>, \<open>start\<close> and \<open>stop\<close> for POST) is answered
  with the object \<open>{error: "Invalid endpoint: <operation>"}\<close>, and no request is made to
  the device.
\<close>

theorem proxy_rejects_operation_outside_whitelist:
  assumes "isValidHost h"
  shows "(endpoint \<notin> set [''configuration'', ''schema'']
        \<longrightarrow> proxy_get up h v endpoint = (Error_object (''Invalid endpoint: '' @ endpoint), []))
    \<and> (endpoint \<notin> set [''configuration'', ''start'', ''stop'']
        \<longrightarrow> proxy_post up h v endpoint body
            = (Error_object (''Invalid endpoint: '' @ endpoint), []))"
  using assms by (simp add: proxy_get_def proxy_post_def)

theorem proxy_rejects_operation_outside_whitelist_witness:
  "isValidHost example_host
   \<and> ''deleteEverything'' \<notin> set [''configuration'', ''schema'']
   \<and> ''deleteEverything'' \<notin> set [''configuration'', ''start'', ''stop'']
   \<and> proxy_get example_upstream example_host ''1'' ''deleteEverything''
       = (Error_object ''Invalid endpoint: deleteEverything'', [])
   \<and> proxy_post example_upstream example_host ''1'' ''deleteEverything'' None
       = (Error_object ''Invalid endpoint: deleteEverything'', [])"
  using proxy_rejects_operation_outside_whitelist [OF example_host_valid, of "''deleteEverything''" example_upstream "''1''" None]
    example_host_valid
  by simp

text \<open>
  C8. With a valid host and a whitelisted operation, when the upstream request fails (the
  fetch rejects, the body cannot be read, or the body is not JSON where the handler decodes
  JSON) the handler answers with the object \<open>{error: "Unreachable: <url>"}\<close>, the url being
  \<open>http://<host>/v<apiVersion>/<operation>\<close>, after the one request to that url. The
  handler is a total function into replies: the exception ends in its \<open>catch\<close>.
\<close>

theorem proxy_reports_unreachable_upstream:
  assumes "isValidHost h"
  shows "(endpoint \<in> set [''configuration'', ''schema'']
          \<and> upstream_fails up (get_request (proxy_url h v endpoint)) (endpoint \<noteq> ''schema'')
        \<longrightarrow> proxy_get up h v endpoint
            = (Error_object (''Unreachable: '' @ proxy_url h v endpoint),
               [get_request (proxy_url h v endpoint)]))
    \<and> (endpoint \<in> set [''configuration'', ''start'', ''stop'']
          \<and> upstream_fails up (post_request (proxy_url h v endpoint) (post_data up body)) True
        \<longrightarrow> proxy_post up h v endpoint body
            = (Error_object (''Unreachable: '' @ proxy_url h v endpoint),
               [post_request (proxy_url h v endpoint) (post_data up body)]))
    \<and> proxy_url h v endpoint = ''http://'' @ h @ ''/v'' @ v @ ''/'' @ endpoint"
proof (intro conjI impI)
  assume a: "endpoint \<in> set [''configuration'', ''schema'']
          \<and> upstream_fails up (get_request (proxy_url h v endpoint)) (endpoint \<noteq> ''schema'')"
  then have "\<exists>e. get_try up (proxy_url h v endpoint) endpoint = Inl e"
    by (auto simp: get_try_def fetch_json_def fetch_text_def upstream_fails_def
        split: fetch_result.splits option.splits)
  with a assms show "proxy_get up h v endpoint
            = (Error_object (''Unreachable: '' @ proxy_url h v endpoint),
               [get_request (proxy_url h v endpoint)])"
    by (auto simp: proxy_get_def Let_def)
next
  assume a: "endpoint \<in> set [''configuration'', ''start'', ''stop'']
          \<and> upstream_fails up (post_request (proxy_url h v endpoint) (post_data up body)) True"
  then have "\<exists>e. post_try up (proxy_url h v endpoint) body = Inl e"
    by (auto simp: post_try_def fetch_json_def fetch_text_def upstream_fails_def
        split: fetch_result.splits option.splits)
  with a assms show "proxy_post up h v endpoint body
            = (Error_object (''Unreachable: '' @ proxy_url h v endpoint),
               [post_request (proxy_url h v endpoint) (post_data up body)])"
    by (auto simp: proxy_post_def Let_def)
next
  show "proxy_url h v endpoint = ''http://'' @ h @ ''/v'' @ v @ ''/'' @ endpoint"
    by (simp add: proxy_url_def)
qed

theorem proxy_reports_unreachable_upstream_witness:
  "isValidHost example_host
   \<and> upstream_fails example_upstream (get_request (proxy_url example_host ''1'' ''configuration'')) True
   \<and> upstream_fails example_upstream
        (post_request (proxy_url example_host ''1'' ''start'') (post_data example_upstream None)) True
   \<and> proxy_get example_upstream example_host ''1'' ''configuration''
       = (Error_object ''Unreachable: http://10.0.0.1:80/v1/configuration'',
          [get_request ''http://10.0.0.1:80/v1/configuration''])
   \<and> proxy_post example_upstream example_host ''1'' ''start'' None
       = (Error_object ''Unreachable: http://10.0.0.1:80/v1/start'',
          [post_request ''http://10.0.0.1:80/v1/start'' ''{}''])"
proof -
  have f: "upstream_fails example_upstream rq b" for rq b
    by (simp add: upstream_fails_def example_upstream_def)
  have g: "proxy_get example_upstream example_host ''1'' ''configuration''
       = (Error_object (''Unreachable: '' @ proxy_url example_host ''1'' ''configuration''),
          [get_request (proxy_url example_host ''1'' ''configuration'')])"
    using proxy_reports_unreachable_upstream [OF example_host_valid, of "''configuration''" example_upstream "''1''"] f
    by simp
  have p: "proxy_post example_upstream example_host ''1'' ''start'' None
       = (Error_object (''Unreachable: '' @ proxy_url example_host ''1'' ''start''),
          [post_request (proxy_url example_host ''1'' ''start'') (post_data example_upstream None)])"
    using proxy_reports_unreachable_upstream [OF example_host_valid, of "''start''" example_upstream "''1''" None] f
    by simp
  show ?thesis
    using g p f example_host_valid
    by (simp add: proxy_url_def example_host_def post_data_def)
qed

section \<open>Discovery registry: order of the fragments\<close>

lemma get_property_own_only:
  "own_only nm \<Longrightarrow>
   get_property rg nm = (case entries rg nm of None \<Rightarrow> Undefined | Some d \<Rightarrow> Own d)"
  by (simp add: get_property_def own_only_def split: option.splits)

lemma on_response_name:
  "own_only nm \<Longrightarrow>
   on_response (name_fragment nm) rg
   = Inr (rg\<lparr> entries := (entries rg)
            (nm \<mapsto> (case entries rg nm of None \<Rightarrow> empty_device | Some d \<Rightarrow> d)
                    \<lparr> dev_name := Some nm \<rparr>) \<rparr>)"
  by (simp add: on_response_def name_fragment_def get_property_own_only split: option.splits)

lemma on_response_location:
  "own_only nm \<Longrightarrow>
   on_response (location_fragment nm target prt) rg
   = Inr (case entries rg nm of None \<Rightarrow> rg
          | Some d \<Rightarrow> rg\<lparr> entries := (entries rg)
                (nm \<mapsto> d\<lparr> dev_host := Some target, dev_port := Some prt \<rparr>) \<rparr>)"
  by (simp add: on_response_def location_fragment_def get_property_own_only
      split: option.splits)

lemma on_response_address:
  "on_response (address_fragment target addr) rg
   = Inr (rg\<lparr> entries :=
            (\<lambda>key. map_option
                      (\<lambda>d. if dev_host d = Some target then d\<lparr> dev_address := Some addr \<rparr>
                            else d)
                      (entries rg key)) \<rparr>)"
  by (simp add: on_response_def address_fragment_def)

lemma on_response_attributes:
  "own_only nm \<Longrightarrow>
   on_response (attributes_fragment nm txtData) rg
   = Inr (case entries rg nm of None \<Rightarrow> rg
          | Some d \<Rightarrow> rg\<lparr> entries := (entries rg)
                (nm \<mapsto> d\<lparr> dev_properties := Some (txt_object txtData) \<rparr>) \<rparr>)"
  by (simp add: on_response_def attributes_fragment_def get_property_own_only
      split: option.splits)

lemmas on_response_fragment =
  on_response_name on_response_location on_response_address on_response_attributes

lemma example_name_own_only: "own_only example_name"
  by (simp add: own_only_def example_name_def function_properties_def)

lemma to_string_inherited: "get_property empty_registry ''toString'' = Builtin_function"
  by (simp add: get_property_def empty_registry_def function_properties_def)

text \<open>
  C9, as the specification words it, fails for both orders it names. From an empty registry,
  attributes, location, address, name leaves a record with the name only: the first three
  fragments find no record and are dropped. Name, address, location, attributes leaves a
  record without address: the address arrives before the location has set the host it is
  matched against. The two records differ. They differ as well when the four records come
  in one response, the name among its answers and the others among its additional
  records in the two orders: the answers are read first, and the address is still lost
  when it precedes the location. For a device that announces itself as \<open>toString\<close>, a
  name the registry object inherits, neither order gives a record: the handler of the name
  throws.
\<close>

theorem fragments_before_name_are_dropped_counterexample:
  "device_after
     (feed [attributes_fragment example_name example_txt,
            location_fragment example_name example_target 8080,
            address_fragment example_target ''192.168.1.20'',
            name_fragment example_name] empty_registry) example_name
     = Inr (Some (empty_device\<lparr> dev_name := Some example_name \<rparr>))
   \<and> device_after
       (feed [name_fragment example_name,
              address_fragment example_target ''192.168.1.20'',
              location_fragment example_name example_target 8080,
              attributes_fragment example_name example_txt] empty_registry) example_name
     = Inr (Some ((complete_device example_name example_target ''192.168.1.20'' 8080
                     example_txt)\<lparr> dev_address := None \<rparr>))
   \<and> device_after
       (feed [attributes_fragment example_name example_txt,
              location_fragment example_name example_target 8080,
              address_fragment example_target ''192.168.1.20'',
              name_fragment example_name] empty_registry) example_name
     \<noteq> device_after
       (feed [name_fragment example_name,
              address_fragment example_target ''192.168.1.20'',
              location_fragment example_name example_target 8080,
              attributes_fragment example_name example_txt] empty_registry) example_name
   \<and> device_after
       (on_response \<lparr> answers = [Ans_PTR service_type example_name],
                       additionals = [Ans_TXT example_name example_txt,
                                      Ans_SRV example_name example_target 8080,
                                      Ans_A example_target ''192.168.1.20''] \<rparr>
          empty_registry) example_name
     \<noteq> device_after
       (on_response \<lparr> answers = [Ans_PTR service_type example_name],
                       additionals = [Ans_A example_target ''192.168.1.20'',
                                      Ans_SRV example_name example_target 8080,
                                      Ans_TXT example_name example_txt] \<rparr>
          empty_registry) example_name
   \<and> feed [name_fragment ''toString'',
           location_fragment ''toString'' example_target 8080,
           address_fragment example_target ''192.168.1.20'',
           attributes_fragment ''toString'' example_txt] empty_registry
     = Inl TypeError
   \<and> feed [attributes_fragment ''toString'' example_txt,
           location_fragment ''toString'' example_target 8080,
           address_fragment example_target ''192.168.1.20'',
           name_fragment ''toString''] empty_registry
     = Inl TypeError"
proof -
  note oo = example_name_own_only
  have rev: "device_after
     (feed [attributes_fragment example_name example_txt,
            location_fragment example_name example_target 8080,
            address_fragment example_target ''192.168.1.20'',
            name_fragment example_name] empty_registry) example_name
     = Inr (Some (empty_device\<lparr> dev_name := Some example_name \<rparr>))"
    by (simp add: feed_def on_response_fragment oo device_after_def empty_registry_def)
  have natural: "device_after
       (feed [name_fragment example_name,
              address_fragment example_target ''192.168.1.20'',
              location_fragment example_name example_target 8080,
              attributes_fragment example_name example_txt] empty_registry) example_name
     = Inr (Some ((complete_device example_name example_target ''192.168.1.20'' 8080
                     example_txt)\<lparr> dev_address := None \<rparr>))"
    by (simp add: feed_def on_response_fragment oo device_after_def empty_registry_def
        complete_device_def empty_device_def)
  have ne: "empty_device\<lparr> dev_name := Some example_name \<rparr>
     \<noteq> (complete_device example_name example_target ''192.168.1.20'' 8080 example_txt)
          \<lparr> dev_address := None \<rparr>"
    by (simp add: complete_device_def empty_device_def)
  have one: "device_after
       (on_response \<lparr> answers = [Ans_PTR service_type example_name],
                       additionals = [Ans_TXT example_name example_txt,
                                      Ans_SRV example_name example_target 8080,
                                      Ans_A example_target ''192.168.1.20''] \<rparr>
          empty_registry) example_name
     \<noteq> device_after
       (on_response \<lparr> answers = [Ans_PTR service_type example_name],
                       additionals = [Ans_A example_target ''192.168.1.20'',
                                      Ans_SRV example_name example_target 8080,
                                      Ans_TXT example_name example_txt] \<rparr>
          empty_registry) example_name"
    using oo
    by (simp add: on_response_def get_property_own_only device_after_def empty_registry_def
        empty_device_def)
  have ts: "feed [name_fragment ''toString'',
           location_fragment ''toString'' example_target 8080,
           address_fragment example_target ''192.168.1.20'',
           attributes_fragment ''toString'' example_txt] empty_registry
     = Inl TypeError"
    by (simp add: feed_def on_response_def name_fragment_def to_string_inherited)
  have ts': "feed [attributes_fragment ''toString'' example_txt,
           location_fragment ''toString'' example_target 8080,
           address_fragment example_target ''192.168.1.20'',
           name_fragment ''toString''] empty_registry
     = Inl TypeError"
    by (simp add: feed_def on_response_def name_fragment_def attributes_fragment_def
        location_fragment_def address_fragment_def get_property_def empty_registry_def
        function_properties_def)
  from rev natural ne one ts ts' show ?thesis
    by (intro conjI) simp_all
qed

text \<open>
  C9, as the code has it. For a device whose name finds nothing inherited in the registry
  object, with the name first and the location before the address, in whatever state the
  registry is, the record of the device is the completed one (name, host, address, port,
  properties), wherever the attributes come after the name; so it is when one response
  carries the name as answer and location, address and attributes as additional records.
\<close>

theorem fragments_name_first_location_before_address:
  assumes oo: "own_only nm"
  shows "device_after
       (feed [name_fragment nm, location_fragment nm target prt, address_fragment target addr,
              attributes_fragment nm txtData] rg) nm
     = Inr (Some (complete_device nm target addr prt txtData))
   \<and> device_after
       (feed [name_fragment nm, location_fragment nm target prt,
              attributes_fragment nm txtData, address_fragment target addr] rg) nm
     = Inr (Some (complete_device nm target addr prt txtData))
   \<and> device_after
       (feed [name_fragment nm, attributes_fragment nm txtData,
              location_fragment nm target prt, address_fragment target addr] rg) nm
     = Inr (Some (complete_device nm target addr prt txtData))
   \<and> device_after
       (on_response \<lparr> answers = [Ans_PTR service_type nm],
                       additionals = [Ans_SRV nm target prt, Ans_A target addr,
                                      Ans_TXT nm txtData] \<rparr> rg) nm
     = Inr (Some (complete_device nm target addr prt txtData))"
proof -
  have one: "device_after
       (on_response \<lparr> answers = [Ans_PTR service_type nm],
                       additionals = [Ans_SRV nm target prt, Ans_A target addr,
                                      Ans_TXT nm txtData] \<rparr> rg) nm
     = Inr (Some (complete_device nm target addr prt txtData))"
    using oo
    by (cases "entries rg nm")
       (simp_all add: on_response_def get_property_own_only device_after_def
          complete_device_def empty_device_def)
  show ?thesis
    by (intro conjI one; cases "entries rg nm")
       (simp_all add: feed_def on_response_fragment oo device_after_def
          complete_device_def empty_device_def)
qed

theorem fragments_name_first_location_before_address_witness:
  "own_only example_name
   \<and> device_after
       (feed [name_fragment example_name,
              location_fragment example_name example_target 8080,
              address_fragment example_target ''192.168.1.20'',
              attributes_fragment example_name example_txt] empty_registry) example_name
     = Inr (Some (complete_device example_name example_target ''192.168.1.20'' 8080
                    example_txt))"
  using fragments_name_first_location_before_address
      [OF example_name_own_only, of example_target 8080 "''192.168.1.20''" example_txt
         empty_registry]
    example_name_own_only
  by (intro conjI) (assumption | erule conjunct1)+

end
